theory Spec2Isabelle
  imports Main "HOL-Library.Word"
begin

section \<open>The declarations of I2Ctest.h\<close>

text \<open>
  The repository is one header, \<^verbatim>\<open>I2Ctest.h\<close>: two object-like macros, three typedefs
  and three struct definitions inside an include guard. The header is modelled as the
  list of its directives and declarations, in source order, and a translation unit as
  the tables a compiler keeps while it reads them.
\<close>

subsection \<open>Syntax\<close>

text \<open>
  The type specifiers the header writes: the keyword type \<^verbatim>\<open>unsigned char\<close>, or a bare
  identifier (\<^verbatim>\<open>int16_t\<close>, \<^verbatim>\<open>I2C_byte\<close>, \<^verbatim>\<open>I2C_length\<close>, \<^verbatim>\<open>I2C_data_brief\<close>,
  \<^verbatim>\<open>I2C_transaction_brief\<close>). The header never writes \<^verbatim>\<open>struct X\<close> as a specifier.
\<close>

datatype type_spec = UnsignedChar | TypeName string

text \<open>
  The declarators the header writes: \<^verbatim>\<open>name\<close>, \<^verbatim>\<open>name[MACRO]\<close> and \<^verbatim>\<open>name[]\<close>.
  The last one, a flexible array member, is C99; C++ compilers take it as an extension,
  and the elaboration below accepts it in both languages.
\<close>

datatype declarator = Plain string | ArrayOf string string | FlexArray string

datatype item =
    Define string nat
  | Typedef type_spec declarator
  | Struct string "(type_spec \<times> declarator) list"

subsection \<open>Types and translation units\<close>

datatype ctype = UChar | Int16 | StructT string | ArrayT ctype nat | FlexT ctype

text \<open>
  Width in bits and signedness of the scalar types, on a platform with 8-bit bytes;
  \<^verbatim>\<open>int16_t\<close> is exactly 16 bits, two's complement, wherever it exists.
\<close>

fun ctype_bits :: "ctype \<Rightarrow> nat option" where
  "ctype_bits UChar = Some 8"
| "ctype_bits Int16 = Some 16"
| "ctype_bits (StructT n) = None"
| "ctype_bits (ArrayT t k) = None"
| "ctype_bits (FlexT t) = None"

fun ctype_signed :: "ctype \<Rightarrow> bool option" where
  "ctype_signed UChar = Some False"
| "ctype_signed Int16 = Some True"
| "ctype_signed (StructT n) = None"
| "ctype_signed (ArrayT t k) = None"
| "ctype_signed (FlexT t) = None"

record tu =
  macros :: "(string \<times> nat) list"
  typedefs :: "(string \<times> ctype) list"
  structs :: "(string \<times> (string \<times> ctype) list) list"

datatype lang = C99 | Cplusplus

text \<open>
  \<open>redefine_ok\<close>: whether the compiler accepts an incompatible redefinition of a macro
  (with a warning, the later definition replacing the earlier one) instead of
  rejecting it as both standards require.
\<close>

record compiler =
  lang :: lang
  redefine_ok :: bool

datatype error =
    UnknownType string
  | Undeclared string
  | BadArraySize string
  | MacroRedefined string
  | TypeRedefined string
  | StructRedefined string

definition tu_empty :: tu where
  "tu_empty = \<lparr>macros = [], typedefs = [], structs = []\<rparr>"

text \<open>
  What \<^verbatim>\<open>#include <stdint.h>\<close> contributes that the header uses: the typedef name
  \<^verbatim>\<open>int16_t\<close>. The header itself includes nothing.
\<close>

definition stdint_h :: "tu \<Rightarrow> tu" where
  "stdint_h s = s\<lparr>typedefs := (''int16_t'', Int16) # typedefs s\<rparr>"

text \<open>A macro defined before the header is read (\<^verbatim>\<open>-Dname=value\<close> on the command line).\<close>

definition predefine :: "string \<Rightarrow> nat \<Rightarrow> tu \<Rightarrow> tu" where
  "predefine m v s = s\<lparr>macros := (m, v) # macros s\<rparr>"

subsection \<open>Elaboration\<close>

text \<open>
  A bare identifier names a type when it is a typedef name; in C++ the name of a
  struct is a type name too, in C it is only a tag and needs the keyword \<^verbatim>\<open>struct\<close>.
\<close>

fun resolve_spec :: "lang \<Rightarrow> tu \<Rightarrow> type_spec \<Rightarrow> error + ctype" where
  "resolve_spec l s UnsignedChar = Inr UChar"
| "resolve_spec l s (TypeName n) =
     (case map_of (typedefs s) n of
        Some t \<Rightarrow> Inr t
      | None \<Rightarrow>
          (if l = Cplusplus \<and> map_of (structs s) n \<noteq> None then Inr (StructT n)
           else Inl (UnknownType n)))"

fun apply_declarator :: "tu \<Rightarrow> ctype \<Rightarrow> declarator \<Rightarrow> error + (string \<times> ctype)" where
  "apply_declarator s t (Plain n) = Inr (n, t)"
| "apply_declarator s t (ArrayOf n m) =
     (case map_of (macros s) m of
        None \<Rightarrow> Inl (Undeclared m)
      | Some k \<Rightarrow> (if k = 0 then Inl (BadArraySize n) else Inr (n, ArrayT t k)))"
| "apply_declarator s t (FlexArray n) = Inr (n, FlexT t)"

fun members :: "lang \<Rightarrow> tu \<Rightarrow> (type_spec \<times> declarator) list \<Rightarrow> error + (string \<times> ctype) list" where
  "members l s [] = Inr []"
| "members l s ((ts, d) # ms) =
     (case resolve_spec l s ts of
        Inl e \<Rightarrow> Inl e
      | Inr t \<Rightarrow>
          (case apply_declarator s t d of
             Inl e \<Rightarrow> Inl e
           | Inr f \<Rightarrow>
               (case members l s ms of
                  Inl e \<Rightarrow> Inl e
                | Inr fs \<Rightarrow> Inr (f # fs))))"

text \<open>
  One directive or declaration. A macro may be defined again only with the same
  replacement; a typedef name may be declared again only in C++ and with the same type;
  a struct may be defined once.
\<close>

fun item_step :: "compiler \<Rightarrow> tu \<Rightarrow> item \<Rightarrow> error + tu" where
  "item_step cc s (Define m v) =
     (case map_of (macros s) m of
        None \<Rightarrow> Inr (s\<lparr>macros := (m, v) # macros s\<rparr>)
      | Some v' \<Rightarrow>
          (if v' = v then Inr s
           else if redefine_ok cc then Inr (s\<lparr>macros := (m, v) # macros s\<rparr>)
           else Inl (MacroRedefined m)))"
| "item_step cc s (Typedef ts d) =
     (case resolve_spec (lang cc) s ts of
        Inl e \<Rightarrow> Inl e
      | Inr t \<Rightarrow>
          (case apply_declarator s t d of
             Inl e \<Rightarrow> Inl e
           | Inr (n, t') \<Rightarrow>
               (case map_of (typedefs s) n of
                  None \<Rightarrow> Inr (s\<lparr>typedefs := (n, t') # typedefs s\<rparr>)
                | Some t'' \<Rightarrow>
                    (if lang cc = Cplusplus \<and> t'' = t' then Inr s
                     else Inl (TypeRedefined n)))))"
| "item_step cc s (Struct n ms) =
     (if map_of (structs s) n \<noteq> None then Inl (StructRedefined n)
      else (case members (lang cc) s ms of
              Inl e \<Rightarrow> Inl e
            | Inr fs \<Rightarrow> Inr (s\<lparr>structs := (n, fs) # structs s\<rparr>)))"

fun run_items :: "compiler \<Rightarrow> tu \<Rightarrow> item list \<Rightarrow> error + tu" where
  "run_items cc s [] = Inr s"
| "run_items cc s (i # is) =
     (case item_step cc s i of
        Inl e \<Rightarrow> Inl e
      | Inr s' \<Rightarrow> run_items cc s' is)"

subsection \<open>The header\<close>

text \<open>
  The lines between \<^verbatim>\<open>#ifndef __I2CTEST_I2CTEST_H\<close> and \<^verbatim>\<open>#endif\<close>, in source order.
  The replacement of \<^verbatim>\<open>I2C_limit_brief\<close> is a parameter, so that a change of that one
  line can be stated; the header has 16.
\<close>

definition I2Ctest_h_items :: "nat \<Rightarrow> item list" where
  "I2Ctest_h_items limit =
     [Define ''__I2CTEST_I2CTEST_H'' 1,
      Typedef UnsignedChar (Plain ''I2C_byte''),
      Typedef (TypeName ''int16_t'') (Plain ''I2C_length''),
      Define ''I2C_limit_brief'' limit,
      Typedef (TypeName ''I2C_byte'') (ArrayOf ''I2C_data_brief'' ''I2C_limit_brief''),
      Struct ''I2C_transaction_generic''
        [(TypeName ''I2C_byte'', Plain ''addr''),
         (TypeName ''I2C_length'', Plain ''n_write''),
         (TypeName ''I2C_length'', Plain ''n_read''),
         (TypeName ''I2C_byte'', FlexArray ''write'')],
      Struct ''I2C_transaction_brief''
        [(TypeName ''I2C_byte'', Plain ''addr''),
         (TypeName ''I2C_length'', Plain ''n_write''),
         (TypeName ''I2C_length'', Plain ''n_read''),
         (TypeName ''I2C_data_brief'', Plain ''write'')],
      Struct ''I2C_test_brief''
        [(TypeName ''I2C_transaction_brief'', Plain ''tx''),
         (TypeName ''I2C_data_brief'', Plain ''expect'')]]"

definition I2C_limit_brief :: nat where
  "I2C_limit_brief = 16"

text \<open>
  Reading the header: \<^verbatim>\<open>#ifndef\<close> skips everything up to \<^verbatim>\<open>#endif\<close> when the guard
  macro is defined, whatever its replacement.
\<close>

definition include_I2Ctest_h_with :: "nat \<Rightarrow> compiler \<Rightarrow> tu \<Rightarrow> error + tu" where
  "include_I2Ctest_h_with limit cc s =
     (if map_of (macros s) ''__I2CTEST_I2CTEST_H'' \<noteq> None then Inr s
      else run_items cc s (I2Ctest_h_items limit))"

definition include_I2Ctest_h :: "compiler \<Rightarrow> tu \<Rightarrow> error + tu" where
  "include_I2Ctest_h cc s = include_I2Ctest_h_with I2C_limit_brief cc s"

text \<open>The header included \<open>n\<close> times in a row; the first error ends the translation.\<close>

fun include_times :: "nat \<Rightarrow> compiler \<Rightarrow> tu \<Rightarrow> error + tu" where
  "include_times 0 cc s = Inr s"
| "include_times (Suc n) cc s =
     (case include_I2Ctest_h cc s of
        Inl e \<Rightarrow> Inl e
      | Inr s' \<Rightarrow> include_times n cc s')"

text \<open>The two compilers the header names in its first comment, both standard-conforming.\<close>

definition c99 :: compiler where
  "c99 = \<lparr>lang = C99, redefine_ok = False\<rparr>"

definition cxx :: compiler where
  "cxx = \<lparr>lang = Cplusplus, redefine_ok = False\<rparr>"

section \<open>The values of the declared types\<close>

text \<open>
  \<^verbatim>\<open>typedef unsigned char I2C_byte;\<close> and \<^verbatim>\<open>typedef int16_t I2C_length;\<close>, on a
  platform with 8-bit bytes. The value of a byte in an expression is its unsigned
  reading, the value of a length its two's complement reading.
\<close>

type_synonym I2C_byte = "8 word"

type_synonym I2C_length = "16 word"

definition I2C_byte_value :: "I2C_byte \<Rightarrow> int" where
  "I2C_byte_value b = uint b"

definition I2C_length_value :: "I2C_length \<Rightarrow> int" where
  "I2C_length_value n = sint n"

text \<open>\<^verbatim>\<open>typedef I2C_byte I2C_data_brief[I2C_limit_brief];\<close>: an array of exactly that many bytes.\<close>

typedef I2C_data_brief = "{xs :: I2C_byte list. length xs = I2C_limit_brief}"
  by (rule exI [of _ "replicate I2C_limit_brief 0"]) simp

text \<open>
  The two structs of fixed size, as records. The header defines no operation on them:
  no constructor, no check, no function that reads the arrays. The generic transaction
  ends in a flexible array member, whose number of elements is the size of the caller's
  allocation and no part of the struct's value; it is described by its declaration only.
\<close>

record I2C_transaction_brief =
  addr :: I2C_byte
  n_write :: I2C_length
  n_read :: I2C_length
  "write" :: I2C_data_brief

record I2C_test_brief =
  tx :: I2C_transaction_brief
  expect :: I2C_data_brief

text \<open>Reading a table of the translation unit a run ends with; an error leaves none.\<close>

definition macro_of :: "error + tu \<Rightarrow> string \<Rightarrow> nat option" where
  "macro_of r n = (case r of Inl e \<Rightarrow> None | Inr s \<Rightarrow> map_of (macros s) n)"

definition typedef_of :: "error + tu \<Rightarrow> string \<Rightarrow> ctype option" where
  "typedef_of r n = (case r of Inl e \<Rightarrow> None | Inr s \<Rightarrow> map_of (typedefs s) n)"

definition struct_of :: "error + tu \<Rightarrow> string \<Rightarrow> (string \<times> ctype) list option" where
  "struct_of r n = (case r of Inl e \<Rightarrow> None | Inr s \<Rightarrow> map_of (structs s) n)"

section \<open>Helper lemmas\<close>

lemmas header_defs = include_I2Ctest_h_def include_I2Ctest_h_with_def I2Ctest_h_items_def
  I2C_limit_brief_def c99_def cxx_def stdint_h_def tu_empty_def predefine_def
  macro_of_def typedef_of_def struct_of_def

lemma I2C_byte_value_inj: "inj I2C_byte_value"
  by (rule injI) (simp add: I2C_byte_value_def word_uint_eqI)

lemma I2C_byte_value_range: "range I2C_byte_value = {0..255}"
proof (rule set_eqI)
  fix k :: int
  show "k \<in> range I2C_byte_value \<longleftrightarrow> k \<in> {0..255}"
  proof
    assume "k \<in> range I2C_byte_value"
    then obtain b :: I2C_byte where k: "k = uint b"
      by (auto simp: I2C_byte_value_def)
    have "uint b < 2 ^ LENGTH(8)" by (rule uint_bounded)
    with k show "k \<in> {0..255}" by simp
  next
    assume "k \<in> {0..255}"
    then have "uint (word_of_int k :: I2C_byte) = k"
      by (simp add: uint_word_of_int)
    then have "I2C_byte_value (word_of_int k) = k"
      by (simp add: I2C_byte_value_def)
    then show "k \<in> range I2C_byte_value"
      by (metis rangeI)
  qed
qed

lemma I2C_length_value_inj: "inj I2C_length_value"
  by (rule injI) (simp add: I2C_length_value_def signed_word_eqI)

lemma I2C_length_value_range: "range I2C_length_value = {-32768..32767}"
proof (rule set_eqI)
  fix k :: int
  show "k \<in> range I2C_length_value \<longleftrightarrow> k \<in> {-32768..32767}"
  proof
    assume "k \<in> range I2C_length_value"
    then obtain n :: I2C_length where k: "k = sint n"
      by (auto simp: I2C_length_value_def)
    have "- (2 ^ (LENGTH(16) - 1)) \<le> sint n" "sint n < 2 ^ (LENGTH(16) - 1)"
      by (rule sint_ge, rule sint_lt)
    with k show "k \<in> {-32768..32767}" by simp
  next
    assume "k \<in> {-32768..32767}"
    then have "sint (word_of_int k :: I2C_length) = k"
      by (simp add: sint_sbintrunc' signed_take_bit_int_eq_self)
    then have "I2C_length_value (word_of_int k) = k"
      by (simp add: I2C_length_value_def)
    then show "k \<in> range I2C_length_value"
      by (metis rangeI)
  qed
qed

lemma length_Rep_I2C_data_brief: "length (Rep_I2C_data_brief w) = I2C_limit_brief"
  using Rep_I2C_data_brief [of w] by simp

text \<open>A macro that is defined stays defined: no item of the header is an \<^verbatim>\<open>#undef\<close>.\<close>

lemma item_step_macro_kept:
  "item_step cc s i = Inr s' \<Longrightarrow> map_of (macros s) g \<noteq> None \<Longrightarrow>
   map_of (macros s') g \<noteq> None"
  by (cases i) (auto split: option.splits sum.splits if_splits prod.splits)

lemma run_items_macro_kept:
  "run_items cc s is = Inr s' \<Longrightarrow> map_of (macros s) g \<noteq> None \<Longrightarrow>
   map_of (macros s') g \<noteq> None"
proof (induction "is" arbitrary: s)
  case Nil
  then show ?case by simp
next
  case (Cons i "is")
  then show ?case
    by (auto split: sum.splits dest: item_step_macro_kept)
qed

lemma include_defines_guard:
  assumes "include_I2Ctest_h cc s = Inr s'"
  shows "map_of (macros s') ''__I2CTEST_I2CTEST_H'' \<noteq> None"
proof (cases "map_of (macros s) ''__I2CTEST_I2CTEST_H'' \<noteq> None")
  case True
  with assms show ?thesis
    by (simp add: include_I2Ctest_h_def include_I2Ctest_h_with_def)
next
  case False
  with assms obtain s1 where
    s1: "item_step cc s (Define ''__I2CTEST_I2CTEST_H'' 1) = Inr s1" and
    rest: "run_items cc s1 (tl (I2Ctest_h_items I2C_limit_brief)) = Inr s'"
    by (auto simp: include_I2Ctest_h_def include_I2Ctest_h_with_def I2Ctest_h_items_def
        split: sum.splits)
  from s1 False have "map_of (macros s1) ''__I2CTEST_I2CTEST_H'' \<noteq> None"
    by auto
  with rest show ?thesis
    by (rule run_items_macro_kept)
qed

lemma include_again:
  "include_I2Ctest_h cc s = Inr s' \<Longrightarrow> include_I2Ctest_h cc s' = Inr s'"
  using include_defines_guard [of cc s s']
  by (simp add: include_I2Ctest_h_def include_I2Ctest_h_with_def)

lemma include_times_after:
  "include_I2Ctest_h cc s = Inr s' \<Longrightarrow> include_times n cc s' = Inr s'"
proof (induction n)
  case 0
  show ?case by simp
next
  case (Suc n)
  then show ?case
    by (simp add: include_again)
qed

text \<open>
  What the guard is for: without it, a second reading of the same lines is rejected
  in both languages.
\<close>

lemma unguarded_second_reading_rejected:
  "(case run_items cxx (stdint_h tu_empty) (tl (I2Ctest_h_items I2C_limit_brief)) of
      Inl e \<Rightarrow> Inl e
    | Inr s \<Rightarrow> run_items cxx s (tl (I2Ctest_h_items I2C_limit_brief))) =
   Inl (StructRedefined ''I2C_transaction_generic'')"
  by (simp add: header_defs)

section \<open>The claims\<close>

text \<open>
  Unless said otherwise the header is read by a C++ compiler after \<^verbatim>\<open><stdint.h>\<close>, the
  one setting of the two its first comment names in which it is accepted (see C9).
\<close>

text \<open>
  C1. The generic and the brief transaction have the same three leading members in the
  same order and of the same types: \<^verbatim>\<open>addr\<close>, 8 bits unsigned; \<^verbatim>\<open>n_write\<close>, 16 bits
  signed; \<^verbatim>\<open>n_read\<close>, 16 bits signed. Each has one member more, \<^verbatim>\<open>write\<close>: an array of
  unspecified length in the generic form, an array of 16 bytes in the brief form.
\<close>

theorem transaction_shapes_share_leading_members:
  "struct_of (include_I2Ctest_h cxx (stdint_h tu_empty)) ''I2C_transaction_generic'' =
     Some ([(''addr'', UChar), (''n_write'', Int16), (''n_read'', Int16)] @
           [(''write'', FlexT UChar)]) \<and>
   struct_of (include_I2Ctest_h cxx (stdint_h tu_empty)) ''I2C_transaction_brief'' =
     Some ([(''addr'', UChar), (''n_write'', Int16), (''n_read'', Int16)] @
           [(''write'', ArrayT UChar 16)]) \<and>
   ctype_bits UChar = Some 8 \<and> ctype_signed UChar = Some False \<and>
   ctype_bits Int16 = Some 16 \<and> ctype_signed Int16 = Some True"
  by (simp add: header_defs)

text \<open>
  C2, as the claim states it, fails: the header defines \<^verbatim>\<open>I2C_limit_brief\<close>
  unconditionally (there is no \<^verbatim>\<open>#ifndef\<close> around the definition), so a value given at
  build time, here 32, is an incompatible redefinition. A conforming compiler of either
  language rejects the header; one that lets the later definition win sizes the buffers
  with the header's 16, not with 32.
\<close>

theorem limit_build_time_override_counterexample:
  "include_I2Ctest_h cxx (predefine ''I2C_limit_brief'' 32 (stdint_h tu_empty)) =
     Inl (MacroRedefined ''I2C_limit_brief'') \<and>
   include_I2Ctest_h c99 (predefine ''I2C_limit_brief'' 32 (stdint_h tu_empty)) =
     Inl (MacroRedefined ''I2C_limit_brief'') \<and>
   typedef_of (include_I2Ctest_h (cxx\<lparr>redefine_ok := True\<rparr>)
       (predefine ''I2C_limit_brief'' 32 (stdint_h tu_empty))) ''I2C_data_brief'' =
     Some (ArrayT UChar 16)"
  by (simp add: header_defs)

text \<open>
  C2, amended. The capacity is one named constant, \<^verbatim>\<open>I2C_limit_brief\<close>, which the header
  defines as 16, and both fixed buffers take their size from it through
  \<^verbatim>\<open>I2C_data_brief\<close>: when the header's definition is changed to any positive \<open>N\<close>, the
  write buffer of the brief transaction and the expect buffer of the brief test both
  have \<open>N\<close> elements.
\<close>

theorem limit_sizes_both_buffers:
  "0 < N \<Longrightarrow>
   macro_of (include_I2Ctest_h_with N cxx (stdint_h tu_empty)) ''I2C_limit_brief'' = Some N \<and>
   typedef_of (include_I2Ctest_h_with N cxx (stdint_h tu_empty)) ''I2C_data_brief'' =
     Some (ArrayT UChar N) \<and>
   struct_of (include_I2Ctest_h_with N cxx (stdint_h tu_empty)) ''I2C_transaction_brief'' =
     Some [(''addr'', UChar), (''n_write'', Int16), (''n_read'', Int16),
           (''write'', ArrayT UChar N)] \<and>
   struct_of (include_I2Ctest_h_with N cxx (stdint_h tu_empty)) ''I2C_test_brief'' =
     Some [(''tx'', StructT ''I2C_transaction_brief''), (''expect'', ArrayT UChar N)]"
  by (simp add: header_defs)

theorem limit_sizes_both_buffers_witness:
  "(0::nat) < 16 \<and> I2C_limit_brief = 16 \<and>
   macro_of (include_I2Ctest_h cxx (stdint_h tu_empty)) ''I2C_limit_brief'' = Some 16 \<and>
   typedef_of (include_I2Ctest_h cxx (stdint_h tu_empty)) ''I2C_data_brief'' =
     Some (ArrayT UChar 16) \<and>
   struct_of (include_I2Ctest_h cxx (stdint_h tu_empty)) ''I2C_transaction_brief'' =
     Some [(''addr'', UChar), (''n_write'', Int16), (''n_read'', Int16),
           (''write'', ArrayT UChar 16)] \<and>
   struct_of (include_I2Ctest_h cxx (stdint_h tu_empty)) ''I2C_test_brief'' =
     Some [(''tx'', StructT ''I2C_transaction_brief''), (''expect'', ArrayT UChar 16)]"
  using limit_sizes_both_buffers [of 16]
  by (simp add: include_I2Ctest_h_def I2C_limit_brief_def)

text \<open>
  C3. \<^verbatim>\<open>I2C_byte\<close> is \<^verbatim>\<open>unsigned char\<close>, 8 bits and unsigned: its values are exactly
  the integers 0 to 255, each held by one byte, and the byte with the top bit set reads
  as 255, not as \<open>-1\<close>.
\<close>

theorem I2C_byte_unsigned_8_bits:
  "typedef_of (include_I2Ctest_h cxx (stdint_h tu_empty)) ''I2C_byte'' = Some UChar \<and>
   ctype_bits UChar = Some 8 \<and> ctype_signed UChar = Some False \<and>
   bij_betw I2C_byte_value UNIV {0..255} \<and>
   I2C_byte_value 0xFF = 255"
  by (simp add: header_defs bij_betw_def I2C_byte_value_inj I2C_byte_value_range)
     (simp add: I2C_byte_value_def)

text \<open>
  C4. \<^verbatim>\<open>I2C_length\<close> is \<^verbatim>\<open>int16_t\<close>, 16 bits and signed: its values are exactly the
  integers \<open>-32768\<close> to 32767, so a negative count is representable.
\<close>

theorem I2C_length_signed_16_bits:
  "typedef_of (include_I2Ctest_h cxx (stdint_h tu_empty)) ''I2C_length'' = Some Int16 \<and>
   ctype_bits Int16 = Some 16 \<and> ctype_signed Int16 = Some True \<and>
   bij_betw I2C_length_value UNIV {-32768..32767} \<and>
   I2C_length_value (-1) = -1"
  by (simp add: header_defs bij_betw_def I2C_length_value_inj I2C_length_value_range)
     (simp add: I2C_length_value_def)

text \<open>
  C7. A brief test has exactly two members: \<^verbatim>\<open>tx\<close>, a brief transaction held in the
  struct itself, and \<^verbatim>\<open>expect\<close>, an array of 16 bytes. A test value is that pair: its
  transaction and its buffer are the ones it was built from, and the buffer has 16
  elements.
\<close>

theorem test_brief_is_transaction_and_buffer:
  "struct_of (include_I2Ctest_h cxx (stdint_h tu_empty)) ''I2C_test_brief'' =
     Some [(''tx'', StructT ''I2C_transaction_brief''), (''expect'', ArrayT UChar 16)] \<and>
   tx \<lparr>tx = t, expect = e\<rparr> = t \<and> expect \<lparr>tx = t, expect = e\<rparr> = e \<and>
   length (Rep_I2C_data_brief (expect \<lparr>tx = t, expect = e\<rparr>)) = 16"
  by (simp add: header_defs length_Rep_I2C_data_brief)

text \<open>
  C9. The header's first comment says it compiles as C99 and as C++. Read as C99 after
  \<^verbatim>\<open><stdint.h>\<close> it is rejected: the member \<^verbatim>\<open>tx\<close> of \<^verbatim>\<open>struct I2C_test_brief\<close> is
  declared with the bare name \<^verbatim>\<open>I2C_transaction_brief\<close>, which in C is a struct tag and
  not a type name. Read on its own it is rejected in both languages, since it uses
  \<^verbatim>\<open>int16_t\<close> and includes nothing.
\<close>

theorem header_rejected_as_C99:
  "include_I2Ctest_h c99 (stdint_h tu_empty) = Inl (UnknownType ''I2C_transaction_brief'') \<and>
   include_I2Ctest_h c99 tu_empty = Inl (UnknownType ''int16_t'') \<and>
   include_I2Ctest_h cxx tu_empty = Inl (UnknownType ''int16_t'')"
  by (simp add: header_defs)

text \<open>
  C10. Including the header again changes nothing: for every compiler and every state
  of the translation unit, one inclusion followed by any number of further inclusions
  gives the result of the one inclusion, the same tables or the same error.
\<close>

theorem include_guard_idempotent:
  "include_times (Suc n) cc s = include_I2Ctest_h cc s"
  by (cases "include_I2Ctest_h cc s") (simp_all add: include_times_after)

end
